theory Spec2Isabelle
  imports Main
begin

section \<open>Configuration handling of the ClickUp MCP server (src/config.ts)\<close>

text \<open>
  The module reads two inputs once, when it is loaded: the invocation arguments
  \<^verbatim>\<open>process.argv.slice(2)\<close> and the process environment \<^verbatim>\<open>process.env\<close> (after
  \<^verbatim>\<open>dotenv.config()\<close> has filled it).  Both are parameters of the model: the arguments
  are a list of strings, the environment is a map from variable names to strings.

  A JavaScript value of type \<^verbatim>\<open>string | undefined\<close> is a \<open>string option\<close>, with
  \<open>None\<close> for \<^verbatim>\<open>undefined\<close>.  A string is a list of 8-bit characters, read as the
  code units below 256; the string operations below are the ones of JavaScript on
  that range.
\<close>

subsection \<open>String operations\<close>

text \<open>\<^verbatim>\<open>s.split(sep)\<close> for a separator of one character: every occurrence of the
  separator ends a piece, and the result always has at least one piece.\<close>

fun split_js :: "char \<Rightarrow> string \<Rightarrow> string list" where
  "split_js sep [] = [[]]"
| "split_js sep (c # cs) =
     (if c = sep then [] # split_js sep cs
      else (case split_js sep cs of
              [] \<Rightarrow> [[c]]
            | p # ps \<Rightarrow> (c # p) # ps))"

text \<open>\<^verbatim>\<open>xs.join(sep)\<close>.\<close>

fun join :: "string \<Rightarrow> string list \<Rightarrow> string" where
  "join sep [] = []"
| "join sep [x] = x"
| "join sep (x # y # ys) = x @ sep @ join sep (y # ys)"

text \<open>White space and line terminators of JavaScript among the code units below 256:
  TAB, LF, VT, FF, CR, SPACE and NO-BREAK SPACE.\<close>

definition is_whitespace :: "char \<Rightarrow> bool" where
  "is_whitespace c =
     (c \<in> set [CHR 0x09, CHR 0x0A, CHR 0x0B, CHR 0x0C, CHR 0x0D, CHR 0x20, CHR 0xA0])"

text \<open>\<^verbatim>\<open>s.trim()\<close>: white space is removed at both ends.\<close>

definition trim :: "string \<Rightarrow> string" where
  "trim s = rev (dropWhile is_whitespace (rev (dropWhile is_whitespace s)))"

text \<open>\<^verbatim>\<open>s.toUpperCase()\<close>: the letters a to z are mapped to A to Z.  The other
  characters of the modelled range are kept: JavaScript maps none of them to an ASCII
  letter other than S, so whether the result is one of the level names below does not
  depend on them.\<close>

definition lower_letters :: string where
  "lower_letters = ''abcdefghijklmnopqrstuvwxyz''"

definition upper_letters :: string where
  "upper_letters = ''ABCDEFGHIJKLMNOPQRSTUVWXYZ''"

definition toUpperCase_char :: "char \<Rightarrow> char" where
  "toUpperCase_char c =
     (case map_of (zip lower_letters upper_letters) c of None \<Rightarrow> c | Some u \<Rightarrow> u)"

definition toUpperCase :: "string \<Rightarrow> string" where
  "toUpperCase s = map toUpperCase_char s"

subsection \<open>Truthiness and the operator \<^verbatim>\<open>||\<close>\<close>

text \<open>A value of type \<^verbatim>\<open>string | undefined\<close> is falsy when it is \<^verbatim>\<open>undefined\<close> or
  the empty string.  \<^verbatim>\<open>a || b\<close> is \<open>a\<close> when \<open>a\<close> is truthy and \<open>b\<close> otherwise.\<close>

definition truthy :: "string option \<Rightarrow> bool" where
  "truthy v = (case v of None \<Rightarrow> False | Some s \<Rightarrow> s \<noteq> [])"

definition or_js :: "string option \<Rightarrow> string option \<Rightarrow> string option" where
  "or_js a b = (if truthy a then a else b)"

text \<open>\<^verbatim>\<open>a || 'literal'\<close>, whose result is always a string.\<close>

definition or_default :: "string option \<Rightarrow> string \<Rightarrow> string" where
  "or_default a d = (case a of None \<Rightarrow> d | Some s \<Rightarrow> if s \<noteq> [] then s else d)"

subsection \<open>The argument scan (lines 19 to 38)\<close>

type_synonym dict = "string \<Rightarrow> string option"

text \<open>\<^verbatim>\<open>const [key, value] = parts\<close>: the first two elements, \<^verbatim>\<open>undefined\<close> where
  the array is too short.\<close>

definition destructure :: "string list \<Rightarrow> string option \<times> string option" where
  "destructure parts =
     (case parts of
        [] \<Rightarrow> (None, None)
      | [k] \<Rightarrow> (Some k, None)
      | k # v # _ \<Rightarrow> (Some k, Some v))"

text \<open>The eleven conditional assignments of the loop body (lines 25 to 35), in the
  order of the source: \<^verbatim>\<open>if (key === NAME) envArgs.FIELD = value\<close>.\<close>

definition alias_table :: "(string \<times> string) list" where
  "alias_table =
     [(''CLICKUP_API_KEY'', ''clickupApiKey''),
      (''CLICKUP_TEAM_ID'', ''clickupTeamId''),
      (''DOCUMENT_SUPPORT'', ''documentSupport''),
      (''DOCUMENT_MODEL'', ''documentSupport''),
      (''DOCUMENT_MODULE'', ''documentSupport''),
      (''LOG_LEVEL'', ''logLevel''),
      (''DISABLED_TOOLS'', ''disabledTools''),
      (''DISABLED_COMMANDS'', ''disabledTools''),
      (''ENABLE_SSE'', ''enableSSE''),
      (''ENABLE_OAUTH'', ''enableOAuth''),
      (''PORT'', ''port'')]"

text \<open>The body of the loop for the token after \<^verbatim>\<open>--env\<close>: the token is split at
  \<^verbatim>\<open>=\<close>, and the assignments are run one after the other.  Assigning \<^verbatim>\<open>undefined\<close>
  to a property makes a later read of it \<^verbatim>\<open>undefined\<close>, as for a property never set.\<close>

definition set_env_arg :: "string \<Rightarrow> dict \<Rightarrow> dict" where
  "set_env_arg token e0 =
     (case destructure (split_js CHR ''='' token) of (key, value) \<Rightarrow>
        fold (\<lambda>(name, field) e. if key = Some name then e(field := value) else e)
          alias_table e0)"

text \<open>The loop \<^verbatim>\<open>for (let i = 0; i < args.length; i++)\<close>, from index \<open>i\<close> on: a
  \<^verbatim>\<open>--env\<close> that has a successor consumes it (the \<^verbatim>\<open>i++\<close> of the body and the one of
  the loop header), every other token is passed over.\<close>

function envArgs_loop :: "string list \<Rightarrow> nat \<Rightarrow> dict \<Rightarrow> dict" where
  "envArgs_loop args i e =
     (if i < length args then
        (if args ! i = ''--env'' \<and> i + 1 < length args
         then envArgs_loop args (i + 1 + 1) (set_env_arg (args ! (i + 1)) e)
         else envArgs_loop args (i + 1) e)
      else e)"
  by pat_completeness auto
termination
  by (relation "measure (\<lambda>(args, i, e). length args - i)") auto

declare envArgs_loop.simps [simp del]

definition envArgs :: "string list \<Rightarrow> dict" where
  "envArgs args = envArgs_loop args 0 Map.empty"

subsection \<open>Log levels (lines 40 to 68)\<close>

datatype LogLevel = TRACE | DEBUG | INFO | WARN | ERROR

fun LogLevel_value :: "LogLevel \<Rightarrow> nat" where
  "LogLevel_value TRACE = 0"
| "LogLevel_value DEBUG = 1"
| "LogLevel_value INFO = 2"
| "LogLevel_value WARN = 3"
| "LogLevel_value ERROR = 4"

definition parseLogLevel :: "string option \<Rightarrow> LogLevel" where
  "parseLogLevel levelStr =
     (if \<not> truthy levelStr then ERROR
      else (case levelStr of
              None \<Rightarrow> ERROR
            | Some s \<Rightarrow>
                (let u = toUpperCase s in
                 if u = ''TRACE'' then TRACE
                 else if u = ''DEBUG'' then DEBUG
                 else if u = ''INFO'' then INFO
                 else if u = ''WARN'' then WARN
                 else if u = ''ERROR'' then ERROR
                 else ERROR)))"

subsection \<open>The configuration record (lines 70 to 103)\<close>

record Config =
  clickupApiKey :: string
  clickupTeamId :: string
  enableSponsorMessage :: bool
  documentSupport :: string
  logLevel :: LogLevel
  disabledTools :: "string list"
  enableSSE :: bool
  enableOAuth :: bool
  port :: "string option"

text \<open>\<^verbatim>\<open>raw?.split(',').map(cmd => cmd.trim()).filter(cmd => cmd !== '') || []\<close>: an
  array is truthy, so the empty array on the right is taken only when \<open>raw\<close> is
  \<^verbatim>\<open>undefined\<close>.\<close>

definition parse_disabledTools :: "string option \<Rightarrow> string list" where
  "parse_disabledTools raw =
     (case raw of
        None \<Rightarrow> []
      | Some s \<Rightarrow> filter (\<lambda>cmd. cmd \<noteq> []) (map (\<lambda>cmd. trim cmd) (split_js CHR '','' s)))"

definition configuration :: "string list \<Rightarrow> dict \<Rightarrow> Config" where
  "configuration args env =
     (let ea = envArgs args in
      \<lparr> clickupApiKey =
          or_default (or_js (ea ''clickupApiKey'') (env ''CLICKUP_API_KEY'')) [],
        clickupTeamId =
          or_default (or_js (ea ''clickupTeamId'') (env ''CLICKUP_TEAM_ID'')) [],
        enableSponsorMessage = (env ''ENABLE_SPONSOR_MESSAGE'' \<noteq> Some ''false''),
        documentSupport =
          or_default
            (or_js (or_js (or_js (ea ''documentSupport'') (env ''DOCUMENT_SUPPORT''))
                      (env ''DOCUMENT_MODULE''))
               (env ''DOCUMENT_MODEL''))
            ''false'',
        logLevel = parseLogLevel (or_js (ea ''logLevel'') (env ''LOG_LEVEL'')),
        disabledTools =
          parse_disabledTools
            (or_js (or_js (ea ''disabledTools'') (env ''DISABLED_TOOLS''))
               (env ''DISABLED_COMMANDS'')),
        enableSSE = (ea ''enableSSE'' = Some ''true'' \<or> env ''ENABLE_SSE'' = Some ''true'' \<or> False),
        enableOAuth =
          (ea ''enableOAuth'' = Some ''true'' \<or> env ''ENABLE_OAUTH'' = Some ''true'' \<or> False),
        port = Some (or_default (or_js (ea ''port'') (env ''PORT'')) ''3231'') \<rparr>)"

subsection \<open>Validation (lines 107 to 119)\<close>

datatype error = Error string

definition requiredVars :: "string list" where
  "requiredVars = [''clickupApiKey'', ''clickupTeamId'']"

text \<open>The truthiness of \<^verbatim>\<open>configuration[key]\<close>: a string is truthy when it is not
  empty, a number when it is not zero, an array always, a property the record does
  not have never.\<close>

definition field_truthy :: "Config \<Rightarrow> string \<Rightarrow> bool" where
  "field_truthy c key =
     (if key = ''clickupApiKey'' then clickupApiKey c \<noteq> []
      else if key = ''clickupTeamId'' then clickupTeamId c \<noteq> []
      else if key = ''enableSponsorMessage'' then enableSponsorMessage c
      else if key = ''documentSupport'' then documentSupport c \<noteq> []
      else if key = ''logLevel'' then LogLevel_value (logLevel c) \<noteq> 0
      else if key = ''disabledTools'' then True
      else if key = ''enableSSE'' then enableSSE c
      else if key = ''enableOAuth'' then enableOAuth c
      else if key = ''port'' then truthy (port c)
      else False)"

definition missingEnvVars :: "Config \<Rightarrow> string list" where
  "missingEnvVars c = map (\<lambda>key. key) (filter (\<lambda>key. \<not> field_truthy c key) requiredVars)"

text \<open>What loading the module gives: the exported record, or the error thrown by
  the validation.\<close>

definition load_config :: "string list \<Rightarrow> dict \<Rightarrow> error + Config" where
  "load_config args env =
     (let c = configuration args env in
      if \<not> enableOAuth c then
        (let missing = missingEnvVars c in
         if length missing > 0
         then Inl (Error (''Missing required environment variables: '' @ join '', '' missing))
         else Inr c)
      else Inr c)"

section \<open>Notions used to state the claims\<close>

text \<open>A value is supplied when it is present and not the empty string; the first
  supplied value of a list of sources, in their order; and the default taken when no
  source supplies one.\<close>

definition present :: "string option \<Rightarrow> bool" where
  "present v = (v \<noteq> None \<and> v \<noteq> Some [])"

definition first_present :: "string option list \<Rightarrow> string option" where
  "first_present vs = (case filter present vs of [] \<Rightarrow> None | v # _ \<Rightarrow> v)"

definition value_or :: "string \<Rightarrow> string option \<Rightarrow> string" where
  "value_or d v = (case v of None \<Rightarrow> d | Some s \<Rightarrow> s)"

text \<open>The tokens that the scan takes as \<^verbatim>\<open>KEY=VALUE\<close> tokens, in the order of the
  arguments, and the pair of key and value that each of them gives.\<close>

fun env_tokens :: "string list \<Rightarrow> string list" where
  "env_tokens (a # b # rest) =
     (if a = ''--env'' then b # env_tokens rest else env_tokens (b # rest))"
| "env_tokens [a] = []"
| "env_tokens [] = []"

definition cli_pairs :: "string list \<Rightarrow> (string option \<times> string option) list" where
  "cli_pairs args = map (\<lambda>token. destructure (split_js CHR ''='' token)) (env_tokens args)"

text \<open>A key addresses a field when one of the assignments of the scan stores the
  value of that key in the field.\<close>

definition addresses :: "string option \<Rightarrow> string \<Rightarrow> bool" where
  "addresses key field =
     (case key of None \<Rightarrow> False | Some name \<Rightarrow> (name, field) \<in> set alias_table)"

text \<open>The value of the last pair whose key addresses the given field; \<open>None\<close> when
  there is no such pair, or when that pair has no value.\<close>

definition last_supplied ::
  "string \<Rightarrow> (string option \<times> string option) list \<Rightarrow> string option" where
  "last_supplied field pairs =
     (case rev (filter (\<lambda>(key, value). addresses key field) pairs) of
        [] \<Rightarrow> None
      | (key, value) # _ \<Rightarrow> value)"

text \<open>Two characters are the same letter when they are equal or the two cases of one
  letter; two strings are equal up to case when they have the same length and the
  same letter at every position.\<close>

definition same_letter :: "char \<Rightarrow> char \<Rightarrow> bool" where
  "same_letter x y =
     (x = y \<or> (x, y) \<in> set (zip lower_letters upper_letters)
            \<or> (x, y) \<in> set (zip upper_letters lower_letters))"

definition ci_equal :: "string \<Rightarrow> string \<Rightarrow> bool" where
  "ci_equal s t = list_all2 same_letter s t"

section \<open>Auxiliary facts\<close>

subsection \<open>Strings, truthiness and the first supplied value\<close>

lemma split_js_not_Nil: "split_js sep s \<noteq> []"
  by (induction s) (auto split: list.splits)

lemma join_Cons: "ys \<noteq> [] \<Longrightarrow> join sep (x # ys) = x @ sep @ join sep ys"
  by (cases ys) simp_all

lemma join_split_js: "join [sep] (split_js sep s) = s"
proof (induction s)
  case Nil
  then show ?case by simp
next
  case (Cons c cs)
  show ?case
  proof (cases "c = sep")
    case True
    then show ?thesis using Cons by (simp add: join_Cons split_js_not_Nil)
  next
    case False
    obtain p ps where ps: "split_js sep cs = p # ps"
      using split_js_not_Nil[of sep cs] by (cases "split_js sep cs") auto
    show ?thesis
      using Cons False ps by (cases ps) simp_all
  qed
qed

lemma split_js_no_sep: "p \<in> set (split_js sep s) \<Longrightarrow> sep \<notin> set p"
  by (induction s arbitrary: p) (auto split: list.splits if_splits)

lemma trim_mid:
  "dropWhile is_whitespace s =
     trim s @ rev (takeWhile is_whitespace (rev (dropWhile is_whitespace s)))"
  by (metis rev_append rev_rev_ident takeWhile_dropWhile_id trim_def)

lemma trim_decomp:
  "s = takeWhile is_whitespace s @ trim s
         @ rev (takeWhile is_whitespace (rev (dropWhile is_whitespace s)))"
  using trim_mid[of s] by (metis takeWhile_dropWhile_id)

lemma trim_surrounded:
  "\<exists>l r. s = l @ trim s @ r \<and> list_all is_whitespace l \<and> list_all is_whitespace r"
proof -
  have "list_all is_whitespace (takeWhile is_whitespace s)"
    by (simp add: list_all_iff) (meson set_takeWhileD)
  moreover have "list_all is_whitespace
      (rev (takeWhile is_whitespace (rev (dropWhile is_whitespace s))))"
    by (simp add: list_all_iff) (meson set_takeWhileD)
  ultimately show ?thesis using trim_decomp[of s] by blast
qed

lemma trim_ends:
  assumes "trim s \<noteq> []"
  shows "\<not> is_whitespace (hd (trim s))" "\<not> is_whitespace (last (trim s))"
proof -
  let ?t = "dropWhile is_whitespace s"
  let ?u = "dropWhile is_whitespace (rev ?t)"
  have u: "?u \<noteq> []" using assms by (simp add: trim_def)
  have "last (trim s) = hd ?u" using u by (simp add: trim_def last_rev)
  then show "\<not> is_whitespace (last (trim s))" using u by (simp add: hd_dropWhile)
  have t: "?t = trim s @ rev (takeWhile is_whitespace (rev ?t))"
    by (rule trim_mid)
  have "?t \<noteq> []" using assms by (subst t) simp
  moreover have "hd ?t = hd (trim s)" using assms by (subst t) simp
  ultimately show "\<not> is_whitespace (hd (trim s))" by (metis hd_dropWhile)
qed

lemma present_truthy: "truthy v = present v"
  by (cases v) (simp_all add: truthy_def present_def)

lemma or_default_first2: "or_default (or_js a b) d = value_or d (first_present [a, b])"
  by (cases a; cases b) (simp_all add: or_default_def or_js_def truthy_def first_present_def present_def value_or_def)

lemma or_default_first4:
  "or_default (or_js (or_js (or_js a b) c) e) d = value_or d (first_present [a, b, c, e])"
  by (cases a; cases b; cases c; cases e)
     (simp_all add: or_default_def or_js_def truthy_def first_present_def present_def value_or_def)

lemma parseLogLevel_falsy: "\<not> truthy v \<Longrightarrow> parseLogLevel v = ERROR"
  by (simp add: parseLogLevel_def)

lemma parseLogLevel_None: "parseLogLevel None = ERROR"
  by (simp add: parseLogLevel_def truthy_def)

lemma parseLogLevel_first2: "parseLogLevel (or_js a b) = parseLogLevel (first_present [a, b])"
  by (cases "truthy a"; cases "truthy b")
     (simp_all add: or_js_def first_present_def present_truthy[symmetric] parseLogLevel_falsy
       parseLogLevel_None)

lemma parse_disabledTools_falsy: "\<not> truthy v \<Longrightarrow> parse_disabledTools v = []"
  by (cases v) (simp_all add: truthy_def parse_disabledTools_def trim_def)

lemma parse_disabledTools_None: "parse_disabledTools None = []"
  by (simp add: parse_disabledTools_def)

lemma parse_disabledTools_first3:
  "parse_disabledTools (or_js (or_js a b) c) = parse_disabledTools (first_present [a, b, c])"
  by (cases "truthy a"; cases "truthy b"; cases "truthy c")
     (simp_all add: or_js_def first_present_def present_truthy[symmetric] parse_disabledTools_falsy
       parse_disabledTools_None)

subsection \<open>Upper case and equality up to case\<close>

lemma distinct_lower: "distinct lower_letters"
  by (simp add: lower_letters_def)

lemma lower_upper_disjoint: "c \<in> set upper_letters \<Longrightarrow> c \<notin> set lower_letters"
  by (auto simp add: lower_letters_def upper_letters_def)

lemma length_letters: "length lower_letters = length upper_letters"
  by (simp add: lower_letters_def upper_letters_def)

lemma toUpperCase_char_cases:
  "toUpperCase_char c = y \<longleftrightarrow>
     (c \<notin> set lower_letters \<and> c = y) \<or> (c, y) \<in> set (zip lower_letters upper_letters)"
proof (cases "map_of (zip lower_letters upper_letters) c")
  case None
  then have "c \<notin> set lower_letters"
    by (metis length_letters map_of_zip_is_None)
  moreover have "(c, y) \<notin> set (zip lower_letters upper_letters)"
    using None by (metis map_of_SomeD map_of_eq_None_iff option.distinct(1) weak_map_of_SomeI)
  ultimately show ?thesis using None by (simp add: toUpperCase_char_def)
next
  case (Some u)
  then have "c \<in> set lower_letters" by (meson map_of_SomeD set_zip_leftD)
  moreover have "(c, y) \<in> set (zip lower_letters upper_letters) \<longleftrightarrow> u = y"
    using Some distinct_lower length_letters
    by (metis map_of_eq_Some_iff map_fst_zip option.inject)
  ultimately show ?thesis using Some by (simp add: toUpperCase_char_def)
qed

lemma upper_letter_iff:
  assumes "y \<in> set upper_letters"
  shows "(toUpperCase_char c = y) = same_letter c y"
proof -
  have "y \<notin> set lower_letters" using assms by (rule lower_upper_disjoint)
  then have "(c, y) \<notin> set (zip upper_letters lower_letters)"
    by (meson set_zip_rightD)
  moreover have "c = y \<Longrightarrow> c \<notin> set lower_letters"
    using assms lower_upper_disjoint by simp
  ultimately show ?thesis
    by (auto simp add: toUpperCase_char_cases same_letter_def)
qed

lemma toUpperCase_eq_iff:
  "set name \<subseteq> set upper_letters \<Longrightarrow> (toUpperCase s = name) = ci_equal s name"
proof (induction s arbitrary: name)
  case Nil
  then show ?case by (auto simp add: toUpperCase_def ci_equal_def)
next
  case (Cons c s)
  show ?case
  proof (cases name)
    case Nil
    then show ?thesis by (simp add: toUpperCase_def ci_equal_def)
  next
    case (Cons u us)
    then have "u \<in> set upper_letters" "set us \<subseteq> set upper_letters"
      using Cons.prems by auto
    then show ?thesis
      using Cons.IH[of us] Cons upper_letter_iff[of u c]
      by (simp add: toUpperCase_def ci_equal_def)
  qed
qed

lemma level_names_upper:
  "set ''TRACE'' \<subseteq> set upper_letters" "set ''DEBUG'' \<subseteq> set upper_letters"
  "set ''INFO'' \<subseteq> set upper_letters" "set ''WARN'' \<subseteq> set upper_letters"
  "set ''ERROR'' \<subseteq> set upper_letters"
  by (simp_all add: upper_letters_def)

lemmas toUpperCase_level =
  toUpperCase_eq_iff[OF level_names_upper(1)] toUpperCase_eq_iff[OF level_names_upper(2)]
  toUpperCase_eq_iff[OF level_names_upper(3)] toUpperCase_eq_iff[OF level_names_upper(4)]
  toUpperCase_eq_iff[OF level_names_upper(5)]

lemma ci_equal_Nil: "ci_equal [] t = (t = [])"
  by (simp add: ci_equal_def)

lemma parseLogLevel_Some:
  "parseLogLevel (Some s) =
     (if ci_equal s ''TRACE'' then TRACE
      else if ci_equal s ''DEBUG'' then DEBUG
      else if ci_equal s ''INFO'' then INFO
      else if ci_equal s ''WARN'' then WARN
      else if ci_equal s ''ERROR'' then ERROR
      else ERROR)"
proof (cases "s = []")
  case True
  then show ?thesis by (simp add: parseLogLevel_def truthy_def ci_equal_Nil)
next
  case False
  then show ?thesis
    by (simp add: parseLogLevel_def truthy_def Let_def toUpperCase_level)
qed

subsection \<open>The argument scan as a fold over the consumed tokens\<close>

lemma envArgs_loop_drop:
  "envArgs_loop args i e = fold set_env_arg (env_tokens (drop i args)) e"
proof (induction args i e rule: envArgs_loop.induct)
  case (1 args i e)
  show ?case
  proof (cases "i < length args")
    case False
    then show ?thesis by (subst envArgs_loop.simps) simp
  next
    case lt: True
    show ?thesis
    proof (cases "args ! i = ''--env'' \<and> i + 1 < length args")
      case True
      then have d: "drop i args = ''--env'' # args ! (i + 1) # drop (i + 1 + 1) args"
        using lt by (metis Cons_nth_drop_Suc Suc_eq_plus1)
      show ?thesis
        using 1(1)[OF lt True] lt True
        by (subst envArgs_loop.simps) (simp add: d)
    next
      case False
      have d: "drop i args = args ! i # drop (i + 1) args"
        using lt by (simp add: Cons_nth_drop_Suc)
      have t: "env_tokens (drop i args) = env_tokens (drop (i + 1) args)"
      proof (cases "drop (i + 1) args")
        case Nil
        then show ?thesis using d by simp
      next
        case (Cons b r)
        then have "i + 1 < length args" by (metis drop_eq_Nil not_le list.distinct(1))
        then have "args ! i \<noteq> ''--env''" using False by simp
        then show ?thesis using d Cons by simp
      qed
      have "envArgs_loop args i e = envArgs_loop args (i + 1) e"
        using lt False by (subst envArgs_loop.simps) auto
      then show ?thesis
        using 1(2)[OF lt False] t by simp
    qed
  qed
qed

lemma envArgs_fold: "envArgs args = fold set_env_arg (env_tokens args) Map.empty"
  by (simp add: envArgs_def envArgs_loop_drop)

lemma fold_assign:
  "fold (\<lambda>(name, field) e. if key = Some name then e(field := value) else e) tbl e0 f =
     (if (\<exists>name. key = Some name \<and> (name, f) \<in> set tbl) then value else e0 f)"
  by (induction tbl arbitrary: e0) auto

lemma set_env_arg_apply:
  "set_env_arg token e field =
     (case destructure (split_js CHR ''='' token) of
        (key, value) \<Rightarrow> if addresses key field then value else e field)"
  by (cases "destructure (split_js CHR ''='' token)")
     (auto simp add: set_env_arg_def fold_assign addresses_def split: option.splits)

lemma fold_set_env_arg_last:
  "fold set_env_arg toks e field =
     (case rev (filter (\<lambda>(key, value). addresses key field)
                  (map (\<lambda>token. destructure (split_js CHR ''='' token)) toks)) of
        [] \<Rightarrow> e field
      | (key, value) # _ \<Rightarrow> value)"
proof (induction toks rule: rev_induct)
  case Nil
  then show ?case by simp
next
  case (snoc t ts)
  then show ?case
    by (cases "destructure (split_js CHR ''='' t)") (simp add: set_env_arg_apply)
qed

lemma envArgs_last_supplied: "envArgs args field = last_supplied field (cli_pairs args)"
  by (simp add: envArgs_fold fold_set_env_arg_last last_supplied_def cli_pairs_def)

subsection \<open>Validation, and tokens with and without a separator\<close>

lemma load_config_cases:
  "load_config args env =
     (if enableOAuth (configuration args env) then Inr (configuration args env)
      else if clickupApiKey (configuration args env) = []
              \<and> clickupTeamId (configuration args env) = []
      then Inl (Error ''Missing required environment variables: clickupApiKey, clickupTeamId'')
      else if clickupApiKey (configuration args env) = []
      then Inl (Error ''Missing required environment variables: clickupApiKey'')
      else if clickupTeamId (configuration args env) = []
      then Inl (Error ''Missing required environment variables: clickupTeamId'')
      else Inr (configuration args env))"
  by (simp add: load_config_def Let_def missingEnvVars_def requiredVars_def field_truthy_def)

lemma load_config_Inr: "load_config args env = Inr c \<Longrightarrow> c = configuration args env"
  by (simp add: load_config_cases split: if_splits)

lemma set_env_arg_flag: "set_env_arg ''--env'' e = e"
  by (simp add: set_env_arg_def destructure_def alias_table_def)

lemma split_js_no_sep_id: "sep \<notin> set s \<Longrightarrow> split_js sep s = [s]"
  by (induction s) auto

lemma split_js_append:
  "sep \<notin> set k \<Longrightarrow> split_js sep (k @ sep # rest) = k # split_js sep rest"
  by (induction k) auto

subsection \<open>The fields of the record, and the pairs of the argument scan\<close>

lemma destructure_key_value:
  "CHR ''='' \<notin> set k \<Longrightarrow> CHR ''='' \<notin> set v \<Longrightarrow>
     destructure (split_js CHR ''='' (k @ ''='' @ v)) = (Some k, Some v)"
  by (simp add: split_js_append split_js_no_sep_id destructure_def)

lemma envArgs_single_pair:
  assumes "CHR ''='' \<notin> set k" "CHR ''='' \<notin> set v"
  shows "envArgs [''--env'', k @ ''='' @ v] field = (if addresses (Some k) field then Some v else None)"
  using destructure_key_value[OF assms]
  by (simp add: envArgs_fold set_env_arg_apply del: append.simps)

lemma addresses_flags:
  "addresses (Some ''ENABLE_SSE'') ''enableSSE''" "addresses (Some ''ENABLE_OAUTH'') ''enableOAuth''"
  by (simp_all add: addresses_def alias_table_def)

lemma envArgs_Nil: "envArgs [] = Map.empty"
  by (simp add: envArgs_fold)

lemma addresses_documentSupport:
  "addresses key ''documentSupport''
     = (key \<in> {Some ''DOCUMENT_SUPPORT'', Some ''DOCUMENT_MODEL'', Some ''DOCUMENT_MODULE''})"
  by (cases key) (auto simp add: addresses_def alias_table_def)

lemma addresses_disabledTools:
  "addresses key ''disabledTools'' = (key \<in> {Some ''DISABLED_TOOLS'', Some ''DISABLED_COMMANDS''})"
  by (cases key) (auto simp add: addresses_def alias_table_def)

lemma configuration_fields:
  "clickupApiKey (configuration args env)
     = value_or [] (first_present [envArgs args ''clickupApiKey'', env ''CLICKUP_API_KEY''])"
  "clickupTeamId (configuration args env)
     = value_or [] (first_present [envArgs args ''clickupTeamId'', env ''CLICKUP_TEAM_ID''])"
  "logLevel (configuration args env)
     = parseLogLevel (first_present [envArgs args ''logLevel'', env ''LOG_LEVEL''])"
  "disabledTools (configuration args env)
     = parse_disabledTools
         (first_present [envArgs args ''disabledTools'', env ''DISABLED_TOOLS'',
            env ''DISABLED_COMMANDS''])"
  "port (configuration args env)
     = Some (value_or ''3231'' (first_present [envArgs args ''port'', env ''PORT'']))"
  "enableSSE (configuration args env)
     = (envArgs args ''enableSSE'' = Some ''true'' \<or> env ''ENABLE_SSE'' = Some ''true'')"
  "enableOAuth (configuration args env)
     = (envArgs args ''enableOAuth'' = Some ''true'' \<or> env ''ENABLE_OAUTH'' = Some ''true'')"
  "enableSponsorMessage (configuration args env)
     = (env ''ENABLE_SPONSOR_MESSAGE'' \<noteq> Some ''false'')"
  by (simp_all add: configuration_def Let_def or_default_first2
        parseLogLevel_first2 parse_disabledTools_first3)

lemma configuration_documentSupport:
  "documentSupport (configuration args env)
     = value_or ''false''
         (first_present [envArgs args ''documentSupport'', env ''DOCUMENT_SUPPORT'',
            env ''DOCUMENT_MODULE'', env ''DOCUMENT_MODEL''])"
  by (simp add: configuration_def Let_def or_default_first4)

lemma set_env_arg_document_aliases:
  "set_env_arg ''DOCUMENT_MODEL=true'' e = e(''documentSupport'' \<mapsto> ''true'')"
  "set_env_arg ''DOCUMENT_SUPPORT=true'' e = e(''documentSupport'' \<mapsto> ''true'')"
  "set_env_arg ''DOCUMENT_MODULE=true'' e = e(''documentSupport'' \<mapsto> ''true'')"
  by (simp_all add: set_env_arg_def destructure_def alias_table_def)

lemma last_supplied_Cons:
  "last_supplied field ((key, value) # pairs) =
     (if filter (\<lambda>(key, value). addresses key field) pairs = []
      then (if addresses key field then value else None)
      else last_supplied field pairs)"
  by (auto simp add: last_supplied_def split: list.splits)

lemma cli_pairs_Cons_env:
  "cli_pairs (''--env'' # token # args) = destructure (split_js CHR ''='' token) # cli_pairs args"
  by (simp add: cli_pairs_def)

section \<open>The claims\<close>

text \<open>C1, as the code has it: for the settings that are strings (API key, team
  identifier, document support, the raw log level, the raw list of disabled tools and
  the port) the resolved value is the first supplied value, that is the first one
  present and not empty, in the order argument pair, environment variable, built-in
  default; an empty string at one source falls through to the next.  The two boolean
  flags are true exactly when the value of the argument pair or the value of the
  environment variable is \<open>true\<close>: an argument can switch a flag on, not off.  The
  sponsor-message flag is read from the environment alone.\<close>

theorem source_precedence:
  "clickupApiKey (configuration args env)
     = value_or [] (first_present [envArgs args ''clickupApiKey'', env ''CLICKUP_API_KEY''])
   \<and> clickupTeamId (configuration args env)
     = value_or [] (first_present [envArgs args ''clickupTeamId'', env ''CLICKUP_TEAM_ID''])
   \<and> documentSupport (configuration args env)
     = value_or ''false''
         (first_present [envArgs args ''documentSupport'', env ''DOCUMENT_SUPPORT'',
            env ''DOCUMENT_MODULE'', env ''DOCUMENT_MODEL''])
   \<and> logLevel (configuration args env)
     = parseLogLevel (first_present [envArgs args ''logLevel'', env ''LOG_LEVEL''])
   \<and> disabledTools (configuration args env)
     = parse_disabledTools
         (first_present [envArgs args ''disabledTools'', env ''DISABLED_TOOLS'',
            env ''DISABLED_COMMANDS''])
   \<and> port (configuration args env)
     = Some (value_or ''3231'' (first_present [envArgs args ''port'', env ''PORT'']))
   \<and> enableSSE (configuration args env)
     = (envArgs args ''enableSSE'' = Some ''true'' \<or> env ''ENABLE_SSE'' = Some ''true'')
   \<and> enableOAuth (configuration args env)
     = (envArgs args ''enableOAuth'' = Some ''true'' \<or> env ''ENABLE_OAUTH'' = Some ''true'')
   \<and> enableSponsorMessage (configuration args env)
     = (env ''ENABLE_SPONSOR_MESSAGE'' \<noteq> Some ''false'')"
  by (simp only: configuration_fields configuration_documentSupport simp_thms)

theorem source_precedence_examples:
  "clickupTeamId (configuration [''--env'', ''CLICKUP_TEAM_ID=A''] [''CLICKUP_TEAM_ID'' \<mapsto> ''B'']) = ''A''
   \<and> clickupTeamId (configuration [''--env'', ''CLICKUP_TEAM_ID=''] [''CLICKUP_TEAM_ID'' \<mapsto> ''B'']) = ''B''
   \<and> clickupTeamId (configuration [] [''CLICKUP_TEAM_ID'' \<mapsto> ''B'']) = ''B''
   \<and> clickupTeamId (configuration [] [''CLICKUP_TEAM_ID'' \<mapsto> []]) = []
   \<and> port (configuration [''--env'', ''PORT=''] [''PORT'' \<mapsto> []]) = Some ''3231''
   \<and> documentSupport (configuration [''--env'', ''DOCUMENT_SUPPORT=''] Map.empty) = ''false''"
  using source_precedence[of "[''--env'', ''CLICKUP_TEAM_ID=A'']" "[''CLICKUP_TEAM_ID'' \<mapsto> ''B'']"]
    source_precedence[of "[''--env'', ''CLICKUP_TEAM_ID='']" "[''CLICKUP_TEAM_ID'' \<mapsto> ''B'']"]
    source_precedence[of "[]" "[''CLICKUP_TEAM_ID'' \<mapsto> ''B'']"]
    source_precedence[of "[]" "[''CLICKUP_TEAM_ID'' \<mapsto> []]"]
    source_precedence[of "[''--env'', ''PORT='']" "[''PORT'' \<mapsto> []]"]
    source_precedence[of "[''--env'', ''DOCUMENT_SUPPORT='']" Map.empty]
  by (simp add: envArgs_fold set_env_arg_def destructure_def alias_table_def
        first_present_def present_def value_or_def)

text \<open>C1 as stated fails for the boolean flags: with \<^verbatim>\<open>--env ENABLE_SSE=false\<close> and
  \<open>ENABLE_SSE=true\<close> in the environment both sources supply the field, the first
  supplied value is \<open>false\<close> from the arguments, and the resolved flag is true.\<close>

theorem cli_false_does_not_override_env_true:
  "envArgs [''--env'', ''ENABLE_SSE=false''] ''enableSSE'' = Some ''false''
   \<and> [''ENABLE_SSE'' \<mapsto> ''true''] ''ENABLE_SSE'' = Some ''true''
   \<and> first_present [envArgs [''--env'', ''ENABLE_SSE=false''] ''enableSSE'',
        [''ENABLE_SSE'' \<mapsto> ''true''] ''ENABLE_SSE''] = Some ''false''
   \<and> enableSSE (configuration [''--env'', ''ENABLE_SSE=false''] [''ENABLE_SSE'' \<mapsto> ''true'']) = True"
  by (simp add: configuration_def envArgs_fold set_env_arg_def destructure_def alias_table_def
        first_present_def present_def)

text \<open>C2: loading fails exactly when the OAuth flag is false and the API key or the team
  identifier is the empty string.  The error is one message that names every missing
  field, both when both are missing.  With the OAuth flag true loading succeeds
  whatever the two fields are, and they stay as resolved (empty when not supplied).\<close>

theorem validation_of_required_fields:
  "isl (load_config args env)
     = (\<not> enableOAuth (configuration args env)
        \<and> (clickupApiKey (configuration args env) = []
           \<or> clickupTeamId (configuration args env) = []))
   \<and> load_config args env =
     (if enableOAuth (configuration args env) then Inr (configuration args env)
      else if clickupApiKey (configuration args env) = []
              \<and> clickupTeamId (configuration args env) = []
      then Inl (Error ''Missing required environment variables: clickupApiKey, clickupTeamId'')
      else if clickupApiKey (configuration args env) = []
      then Inl (Error ''Missing required environment variables: clickupApiKey'')
      else if clickupTeamId (configuration args env) = []
      then Inl (Error ''Missing required environment variables: clickupTeamId'')
      else Inr (configuration args env))
   \<and> missingEnvVars (configuration args env)
     = (if clickupApiKey (configuration args env) = [] then [''clickupApiKey''] else [])
       @ (if clickupTeamId (configuration args env) = [] then [''clickupTeamId''] else [])"
proof -
  have "isl (load_config args env)
     = (\<not> enableOAuth (configuration args env)
        \<and> (clickupApiKey (configuration args env) = []
           \<or> clickupTeamId (configuration args env) = []))"
    by (simp add: load_config_cases)
  moreover have "missingEnvVars (configuration args env)
     = (if clickupApiKey (configuration args env) = [] then [''clickupApiKey''] else [])
       @ (if clickupTeamId (configuration args env) = [] then [''clickupTeamId''] else [])"
    by (simp add: missingEnvVars_def requiredVars_def field_truthy_def)
  ultimately show ?thesis
    using load_config_cases[of args env] by blast
qed

theorem validation_examples:
  "load_config [] [''ENABLE_OAUTH'' \<mapsto> ''true''] = Inr (configuration [] [''ENABLE_OAUTH'' \<mapsto> ''true''])
   \<and> clickupApiKey (configuration [] [''ENABLE_OAUTH'' \<mapsto> ''true'']) = []
   \<and> clickupTeamId (configuration [] [''ENABLE_OAUTH'' \<mapsto> ''true'']) = []
   \<and> load_config [] [''ENABLE_OAUTH'' \<mapsto> ''false'']
      = Inl (Error ''Missing required environment variables: clickupApiKey, clickupTeamId'')
   \<and> load_config [] [''CLICKUP_API_KEY'' \<mapsto> ''k'']
      = Inl (Error ''Missing required environment variables: clickupTeamId'')
   \<and> load_config [''--env'', ''CLICKUP_TEAM_ID=t''] Map.empty
      = Inl (Error ''Missing required environment variables: clickupApiKey'')
   \<and> isl (load_config [''--env'', ''CLICKUP_TEAM_ID=t''] [''CLICKUP_API_KEY'' \<mapsto> ''k'']) = False"
  using validation_of_required_fields[of "[]" "[''ENABLE_OAUTH'' \<mapsto> ''true'']"]
    validation_of_required_fields[of "[]" "[''ENABLE_OAUTH'' \<mapsto> ''false'']"]
    validation_of_required_fields[of "[]" "[''CLICKUP_API_KEY'' \<mapsto> ''k'']"]
    validation_of_required_fields[of "[''--env'', ''CLICKUP_TEAM_ID=t'']" Map.empty]
    validation_of_required_fields[of "[''--env'', ''CLICKUP_TEAM_ID=t'']" "[''CLICKUP_API_KEY'' \<mapsto> ''k'']"]
  by (simp add: configuration_def envArgs_fold set_env_arg_def destructure_def alias_table_def
        or_js_def or_default_def truthy_def)

text \<open>C3: the token after \<^verbatim>\<open>--env\<close> is split at every \<^verbatim>\<open>=\<close>, and the value is the
  second piece: for \<^verbatim>\<open>--env CLICKUP_API_KEY=a=b\<close> the value taken is \<open>a\<close>, not
  \<open>a=b\<close>, while the same value in the environment variable is kept whole.\<close>

theorem env_value_cut_at_second_equals:
  "split_js CHR ''='' ''CLICKUP_API_KEY=a=b'' = [''CLICKUP_API_KEY'', ''a'', ''b'']
   \<and> envArgs [''--env'', ''CLICKUP_API_KEY=a=b''] ''clickupApiKey'' = Some ''a''
   \<and> clickupApiKey (configuration [''--env'', ''CLICKUP_API_KEY=a=b''] Map.empty) = ''a''
   \<and> clickupApiKey (configuration [] [''CLICKUP_API_KEY'' \<mapsto> ''a=b'']) = ''a=b''"
  by (simp add: configuration_def envArgs_fold set_env_arg_def destructure_def alias_table_def
        or_js_def or_default_def truthy_def)

text \<open>C4, as the code has it: one value is kept for a group of synonyms.  Among the
  argument pairs it is the value of the last pair, in the order of the arguments,
  whose key is any name of the group; among the environment variables it is the first
  supplied one in the fixed order \<open>DOCUMENT_SUPPORT\<close>, \<open>DOCUMENT_MODULE\<close>,
  \<open>DOCUMENT_MODEL\<close>, and \<open>DISABLED_TOOLS\<close>, \<open>DISABLED_COMMANDS\<close>; the value of the
  arguments, when supplied, comes before those of the environment.\<close>

theorem alias_groups:
  "envArgs args ''documentSupport'' = last_supplied ''documentSupport'' (cli_pairs args)
   \<and> envArgs args ''disabledTools'' = last_supplied ''disabledTools'' (cli_pairs args)
   \<and> addresses key ''documentSupport''
       = (key \<in> {Some ''DOCUMENT_SUPPORT'', Some ''DOCUMENT_MODEL'', Some ''DOCUMENT_MODULE''})
   \<and> addresses key ''disabledTools''
       = (key \<in> {Some ''DISABLED_TOOLS'', Some ''DISABLED_COMMANDS''})
   \<and> documentSupport (configuration args env)
     = value_or ''false''
         (first_present [last_supplied ''documentSupport'' (cli_pairs args),
            env ''DOCUMENT_SUPPORT'', env ''DOCUMENT_MODULE'', env ''DOCUMENT_MODEL''])
   \<and> disabledTools (configuration args env)
     = parse_disabledTools
         (first_present [last_supplied ''disabledTools'' (cli_pairs args),
            env ''DISABLED_TOOLS'', env ''DISABLED_COMMANDS''])"
  by (simp only: configuration_fields configuration_documentSupport envArgs_last_supplied
        addresses_documentSupport
        addresses_disabledTools simp_thms)

theorem alias_groups_examples:
  "documentSupport
     (configuration [''--env'', ''DOCUMENT_MODULE=x'', ''--env'', ''DOCUMENT_SUPPORT=y''] Map.empty)
     = ''y''
   \<and> documentSupport
     (configuration [] [''DOCUMENT_MODEL'' \<mapsto> ''b'', ''DOCUMENT_MODULE'' \<mapsto> ''c'']) = ''c''
   \<and> documentSupport
     (configuration [''--env'', ''DOCUMENT_MODEL=m'', ''--env'', ''DOCUMENT_SUPPORT'']
        [''DOCUMENT_MODEL'' \<mapsto> ''b'']) = ''b''"
  using alias_groups[of "[''--env'', ''DOCUMENT_MODULE=x'', ''--env'', ''DOCUMENT_SUPPORT=y'']" None Map.empty]
    alias_groups[of "[]" None "[''DOCUMENT_MODEL'' \<mapsto> ''b'', ''DOCUMENT_MODULE'' \<mapsto> ''c'']"]
    alias_groups[of "[''--env'', ''DOCUMENT_MODEL=m'', ''--env'', ''DOCUMENT_SUPPORT'']" None
      "[''DOCUMENT_MODEL'' \<mapsto> ''b'']"]
  by (simp add: cli_pairs_def last_supplied_def destructure_def addresses_def alias_table_def
        first_present_def present_def value_or_def)

text \<open>C4 as stated fails: among argument pairs the value kept depends on the order
  of the pairs and is the last one, not the first of a fixed order of names, and the
  same two names give another value when they come from the environment.\<close>

theorem cli_aliases_last_pair_wins:
  "documentSupport
     (configuration [''--env'', ''DOCUMENT_SUPPORT=a'', ''--env'', ''DOCUMENT_MODEL=b''] Map.empty)
     = ''b''
   \<and> documentSupport
     (configuration [''--env'', ''DOCUMENT_MODEL=b'', ''--env'', ''DOCUMENT_SUPPORT=a''] Map.empty)
     = ''a''
   \<and> documentSupport
     (configuration [] [''DOCUMENT_SUPPORT'' \<mapsto> ''a'', ''DOCUMENT_MODEL'' \<mapsto> ''b'']) = ''a''
   \<and> disabledTools
     (configuration [''--env'', ''DISABLED_TOOLS=x'', ''--env'', ''DISABLED_COMMANDS=y''] Map.empty)
     = [''y'']
   \<and> disabledTools
     (configuration [] [''DISABLED_TOOLS'' \<mapsto> ''x'', ''DISABLED_COMMANDS'' \<mapsto> ''y'']) = [''x'']"
  by (simp add: configuration_def envArgs_fold set_env_arg_def destructure_def alias_table_def
        or_js_def or_default_def truthy_def parse_disabledTools_def trim_def is_whitespace_def)

text \<open>C5: each of the two flags is true exactly when the value taken from the argument
  pair, or the value of the environment variable, is the string \<open>true\<close>; \<open>TRUE\<close>,
  \<open>True\<close>, \<open>1\<close>, any other string and an absent value give false.  No string
  raises an error: the record is built for every input, and loading fails only for a
  missing API key or team identifier.\<close>

theorem boolean_flags_exactly_true:
  "enableSSE (configuration args env)
     = (envArgs args ''enableSSE'' = Some ''true'' \<or> env ''ENABLE_SSE'' = Some ''true'')
   \<and> enableOAuth (configuration args env)
     = (envArgs args ''enableOAuth'' = Some ''true'' \<or> env ''ENABLE_OAUTH'' = Some ''true'')
   \<and> enableSSE (configuration [] (Map.empty(''ENABLE_SSE'' \<mapsto> v))) = (v = ''true'')
   \<and> enableOAuth (configuration [] (Map.empty(''ENABLE_OAUTH'' \<mapsto> v))) = (v = ''true'')
   \<and> (CHR ''='' \<notin> set v \<longrightarrow>
        enableSSE (configuration [''--env'', ''ENABLE_SSE='' @ v] Map.empty) = (v = ''true'')
        \<and> enableOAuth (configuration [''--env'', ''ENABLE_OAUTH='' @ v] Map.empty) = (v = ''true''))
   \<and> enableSSE (configuration [] Map.empty) = False
   \<and> enableOAuth (configuration [] Map.empty) = False
   \<and> (clickupApiKey (configuration args env) \<noteq> [] \<and> clickupTeamId (configuration args env) \<noteq> []
        \<longrightarrow> load_config args env = Inr (configuration args env))"
proof -
  have 1: "enableSSE (configuration args env)
     = (envArgs args ''enableSSE'' = Some ''true'' \<or> env ''ENABLE_SSE'' = Some ''true'')"
    for args env
    by (simp add: configuration_def Let_def)
  have 2: "enableOAuth (configuration args env)
     = (envArgs args ''enableOAuth'' = Some ''true'' \<or> env ''ENABLE_OAUTH'' = Some ''true'')"
    for args env
    by (simp add: configuration_def Let_def)
  have 3: "envArgs [''--env'', ''ENABLE_SSE='' @ v] ''enableSSE'' = Some v"
    if "CHR ''='' \<notin> set v"
    using envArgs_single_pair[of "''ENABLE_SSE''" v "''enableSSE''"] that addresses_flags
    by simp
  have 4: "envArgs [''--env'', ''ENABLE_OAUTH='' @ v] ''enableOAuth'' = Some v"
    if "CHR ''='' \<notin> set v"
    using envArgs_single_pair[of "''ENABLE_OAUTH''" v "''enableOAuth''"] that addresses_flags
    by simp
  have 5: "clickupApiKey (configuration args env) \<noteq> [] \<and> clickupTeamId (configuration args env) \<noteq> []
        \<longrightarrow> load_config args env = Inr (configuration args env)"
    by (simp add: load_config_cases)
  show ?thesis
    unfolding 1 2 using 3 4 5 by (simp add: envArgs_Nil)
qed

theorem boolean_flags_examples:
  "enableSSE (configuration [] [''ENABLE_SSE'' \<mapsto> ''true'']) = True
   \<and> enableSSE (configuration [] [''ENABLE_SSE'' \<mapsto> ''TRUE'']) = False
   \<and> enableSSE (configuration [] [''ENABLE_SSE'' \<mapsto> ''True'']) = False
   \<and> enableSSE (configuration [] [''ENABLE_SSE'' \<mapsto> ''1'']) = False
   \<and> enableSSE (configuration [] Map.empty) = False
   \<and> enableOAuth (configuration [] [''ENABLE_OAUTH'' \<mapsto> ''true'']) = True
   \<and> enableOAuth (configuration [] [''ENABLE_OAUTH'' \<mapsto> ''TRUE'']) = False
   \<and> enableOAuth (configuration [] [''ENABLE_OAUTH'' \<mapsto> ''1'']) = False
   \<and> enableSSE (configuration [''--env'', ''ENABLE_SSE=true''] Map.empty) = True
   \<and> enableSSE (configuration [''--env'', ''ENABLE_SSE=TRUE''] Map.empty) = False
   \<and> enableOAuth (configuration [''--env'', ''ENABLE_OAUTH=1''] Map.empty) = False
   \<and> load_config [''--env'', ''ENABLE_SSE=yes'']
        [''CLICKUP_API_KEY'' \<mapsto> ''k'', ''CLICKUP_TEAM_ID'' \<mapsto> ''t'', ''ENABLE_OAUTH'' \<mapsto> ''on'']
       = Inr (configuration [''--env'', ''ENABLE_SSE=yes'']
        [''CLICKUP_API_KEY'' \<mapsto> ''k'', ''CLICKUP_TEAM_ID'' \<mapsto> ''t'', ''ENABLE_OAUTH'' \<mapsto> ''on''])"
  using boolean_flags_exactly_true[where v = "''true''" and args = "[]" and env = Map.empty]
    boolean_flags_exactly_true[where v = "''TRUE''" and args = "[]" and env = Map.empty]
    boolean_flags_exactly_true[where v = "''True''" and args = "[]" and env = Map.empty]
    boolean_flags_exactly_true[where v = "''1''" and args = "[''--env'', ''ENABLE_SSE=yes'']"
      and env = "[''CLICKUP_API_KEY'' \<mapsto> ''k'', ''CLICKUP_TEAM_ID'' \<mapsto> ''t'', ''ENABLE_OAUTH'' \<mapsto> ''on'']"]
  by (simp add: configuration_def envArgs_fold set_env_arg_def destructure_def alias_table_def
        or_js_def or_default_def truthy_def)

text \<open>C6: the log level is found by comparing the raw string with the five level
  names up to case; \<open>debug\<close>, \<open>DEBUG\<close> and \<open>Debug\<close> give \<open>DEBUG\<close>; every other
  string, the empty string and an absent value give \<open>ERROR\<close>.  The function is total:
  its result is always a level, never an error.  The raw string is the first supplied
  value of the argument pair and the environment variable \<open>LOG_LEVEL\<close>.\<close>

theorem parseLogLevel_case_insensitive:
  "parseLogLevel None = ERROR
   \<and> parseLogLevel (Some s) =
       (if ci_equal s ''TRACE'' then TRACE
        else if ci_equal s ''DEBUG'' then DEBUG
        else if ci_equal s ''INFO'' then INFO
        else if ci_equal s ''WARN'' then WARN
        else if ci_equal s ''ERROR'' then ERROR
        else ERROR)
   \<and> logLevel (configuration args env)
       = parseLogLevel (first_present [envArgs args ''logLevel'', env ''LOG_LEVEL''])"
  by (simp add: parseLogLevel_None parseLogLevel_Some[symmetric] configuration_def Let_def
        parseLogLevel_first2)

theorem parseLogLevel_examples:
  "parseLogLevel (Some ''debug'') = DEBUG \<and> parseLogLevel (Some ''DEBUG'') = DEBUG
   \<and> parseLogLevel (Some ''Debug'') = DEBUG \<and> parseLogLevel (Some ''verbose'') = ERROR
   \<and> parseLogLevel (Some []) = ERROR \<and> parseLogLevel None = ERROR
   \<and> logLevel (configuration [] Map.empty) = ERROR"
  using parseLogLevel_case_insensitive[of "''debug''" "[]" Map.empty]
    parseLogLevel_case_insensitive[of "''DEBUG''" "[]" Map.empty]
    parseLogLevel_case_insensitive[of "''Debug''" "[]" Map.empty]
    parseLogLevel_case_insensitive[of "''verbose''" "[]" Map.empty]
    parseLogLevel_case_insensitive[of "[]" "[]" Map.empty]
  by (simp add: ci_equal_def same_letter_def lower_letters_def upper_letters_def
        first_present_def present_def envArgs_fold)

text \<open>C7: the list of disabled tools is the raw string split at the commas (the pieces
  are the segments between the commas: joined by commas they give the string back,
  and none holds a comma), each piece trimmed (white space is removed at both ends and
  only there), the pieces that are empty after trimming left out; the order of the
  pieces is kept and nothing is removed for being a duplicate.  An absent raw value
  gives the empty list.  The raw string is the first supplied value of the argument
  pair and the two environment variables.\<close>

theorem disabledTools_parsing:
  "parse_disabledTools None = []
   \<and> parse_disabledTools (Some s)
       = filter (\<lambda>cmd. cmd \<noteq> []) (map trim (split_js CHR '','' s))
   \<and> join '','' (split_js CHR '','' s) = s
   \<and> (\<forall>piece \<in> set (split_js CHR '','' s). CHR '','' \<notin> set piece)
   \<and> (\<exists>l r. p = l @ trim p @ r \<and> list_all is_whitespace l \<and> list_all is_whitespace r)
   \<and> (trim p \<noteq> [] \<longrightarrow> \<not> is_whitespace (hd (trim p)) \<and> \<not> is_whitespace (last (trim p)))
   \<and> disabledTools (configuration args env)
       = parse_disabledTools
           (first_present [envArgs args ''disabledTools'', env ''DISABLED_TOOLS'',
              env ''DISABLED_COMMANDS''])"
proof -
  have "parse_disabledTools (Some s)
       = filter (\<lambda>cmd. cmd \<noteq> []) (map trim (split_js CHR '','' s))"
    by (simp add: parse_disabledTools_def)
  moreover have "join '','' (split_js CHR '','' s) = s"
    by (rule join_split_js)
  moreover have "\<forall>piece \<in> set (split_js CHR '','' s). CHR '','' \<notin> set piece"
    using split_js_no_sep by blast
  moreover have "disabledTools (configuration args env)
       = parse_disabledTools
           (first_present [envArgs args ''disabledTools'', env ''DISABLED_TOOLS'',
              env ''DISABLED_COMMANDS''])"
    by (simp add: configuration_def Let_def parse_disabledTools_first3)
  ultimately show ?thesis
    using parse_disabledTools_None trim_surrounded[of p] trim_ends[of p] by blast
qed

theorem disabledTools_examples:
  "parse_disabledTools (Some '' a, b ,,c '') = [''a'', ''b'', ''c'']
   \<and> parse_disabledTools (Some ''b,a,b'') = [''b'', ''a'', ''b'']
   \<and> parse_disabledTools (Some [])  = []
   \<and> parse_disabledTools None = []
   \<and> split_js CHR '','' '' a, b ,,c '' = ['' a'', '' b '', [], ''c '']
   \<and> trim '' b '' = ''b''
   \<and> disabledTools (configuration [] Map.empty) = []"
  using disabledTools_parsing[of "'' a, b ,,c ''" "'' b ''" "[]" Map.empty]
    disabledTools_parsing[of "''b,a,b''" "'' b ''" "[]" Map.empty]
    disabledTools_parsing[of "[]" "'' b ''" "[]" Map.empty]
  by (simp add: trim_def is_whitespace_def first_present_def present_def envArgs_fold)

text \<open>C8: the sponsor-message flag is true unless the environment variable
  \<open>ENABLE_SPONSOR_MESSAGE\<close> is exactly \<open>false\<close>; the arguments have no influence on
  it, whatever they are.\<close>

theorem enableSponsorMessage_env_only:
  "enableSponsorMessage (configuration args env) = (env ''ENABLE_SPONSOR_MESSAGE'' \<noteq> Some ''false'')
   \<and> enableSponsorMessage (configuration args env) = enableSponsorMessage (configuration args' env)
   \<and> (\<forall>c. load_config args env = Inr c \<longrightarrow>
          enableSponsorMessage c = (env ''ENABLE_SPONSOR_MESSAGE'' \<noteq> Some ''false''))"
  by (auto simp add: configuration_def Let_def dest!: load_config_Inr)

theorem enableSponsorMessage_examples:
  "enableSponsorMessage
     (configuration [''--env'', ''ENABLE_SPONSOR_MESSAGE=false''] Map.empty) = True
   \<and> enableSponsorMessage
       (configuration [''--env'', ''ENABLE_SPONSOR_MESSAGE=true'']
          [''ENABLE_SPONSOR_MESSAGE'' \<mapsto> ''false'']) = False
   \<and> enableSponsorMessage (configuration [] [''ENABLE_SPONSOR_MESSAGE'' \<mapsto> ''False'']) = True
   \<and> enableSponsorMessage (configuration [] [''ENABLE_SPONSOR_MESSAGE'' \<mapsto> []]) = True"
  using enableSponsorMessage_env_only[of "[''--env'', ''ENABLE_SPONSOR_MESSAGE=false'']" Map.empty "[]"]
    enableSponsorMessage_env_only[of "[''--env'', ''ENABLE_SPONSOR_MESSAGE=true'']"
      "[''ENABLE_SPONSOR_MESSAGE'' \<mapsto> ''false'']" "[]"]
    enableSponsorMessage_env_only[of "[]" "[''ENABLE_SPONSOR_MESSAGE'' \<mapsto> ''False'']" "[]"]
    enableSponsorMessage_env_only[of "[]" "[''ENABLE_SPONSOR_MESSAGE'' \<mapsto> []]" "[]"]
  by simp

text \<open>C9: when no source supplies a name of the document-support group, setting
  \<open>DOCUMENT_MODEL=true\<close> alone gives the same document support, \<open>true\<close>, as
  setting \<open>DOCUMENT_SUPPORT=true\<close> alone, through an argument pair and through the
  environment; the two records are equal in every field.\<close>

theorem document_alias_equivalence:
  assumes "env ''DOCUMENT_SUPPORT'' = None" and "env ''DOCUMENT_MODULE'' = None"
    and "env ''DOCUMENT_MODEL'' = None"
    and "filter (\<lambda>(key, value). addresses key ''documentSupport'') (cli_pairs args) = []"
  shows "documentSupport (configuration args (env(''DOCUMENT_MODEL'' \<mapsto> ''true''))) = ''true''
    \<and> documentSupport (configuration args (env(''DOCUMENT_SUPPORT'' \<mapsto> ''true''))) = ''true''
    \<and> documentSupport (configuration (''--env'' # ''DOCUMENT_MODEL=true'' # args) env) = ''true''
    \<and> documentSupport (configuration (''--env'' # ''DOCUMENT_SUPPORT=true'' # args) env) = ''true''
    \<and> configuration (''--env'' # ''DOCUMENT_MODEL=true'' # args) env
        = configuration (''--env'' # ''DOCUMENT_SUPPORT=true'' # args) env
    \<and> configuration args (env(''DOCUMENT_MODEL'' \<mapsto> ''true''))
        = configuration args (env(''DOCUMENT_SUPPORT'' \<mapsto> ''true''))"
proof -
  have none: "envArgs args ''documentSupport'' = None"
    using assms(4) by (simp add: envArgs_last_supplied last_supplied_def)
  have model: "envArgs (''--env'' # ''DOCUMENT_MODEL=true'' # args) ''documentSupport'' = Some ''true''"
    using assms(4)
    by (simp add: envArgs_last_supplied cli_pairs_Cons_env destructure_def last_supplied_Cons
          addresses_def alias_table_def)
  have support: "envArgs (''--env'' # ''DOCUMENT_SUPPORT=true'' # args) ''documentSupport'' = Some ''true''"
    using assms(4)
    by (simp add: envArgs_last_supplied cli_pairs_Cons_env destructure_def last_supplied_Cons
          addresses_def alias_table_def)
  have same_args: "envArgs (''--env'' # ''DOCUMENT_MODEL=true'' # args)
      = envArgs (''--env'' # ''DOCUMENT_SUPPORT=true'' # args)"
    by (simp add: envArgs_fold set_env_arg_document_aliases)
  have 1: "documentSupport (configuration args (env(''DOCUMENT_MODEL'' \<mapsto> ''true''))) = ''true''"
    using assms(1,2) none
    by (simp add: configuration_documentSupport first_present_def present_def value_or_def)
  have 2: "documentSupport (configuration args (env(''DOCUMENT_SUPPORT'' \<mapsto> ''true''))) = ''true''"
    using none
    by (simp add: configuration_documentSupport first_present_def present_def value_or_def)
  have 3: "documentSupport (configuration (''--env'' # ''DOCUMENT_MODEL=true'' # args) env) = ''true''"
    using model
    by (simp add: configuration_documentSupport first_present_def present_def value_or_def)
  have 4: "documentSupport (configuration (''--env'' # ''DOCUMENT_SUPPORT=true'' # args) env) = ''true''"
    using support
    by (simp add: configuration_documentSupport first_present_def present_def value_or_def)
  have 5: "configuration (''--env'' # ''DOCUMENT_MODEL=true'' # args) env
        = configuration (''--env'' # ''DOCUMENT_SUPPORT=true'' # args) env"
    by (simp add: configuration_def same_args)
  have 6: "configuration args (env(''DOCUMENT_MODEL'' \<mapsto> ''true''))
        = configuration args (env(''DOCUMENT_SUPPORT'' \<mapsto> ''true''))"
    using assms(1,2,3) none
    by (simp add: configuration_def Let_def or_js_def or_default_def truthy_def)
  show ?thesis using 1 2 3 4 5 6 by blast
qed

theorem document_alias_examples:
  "documentSupport (configuration [] [''DOCUMENT_MODEL'' \<mapsto> ''true'']) = ''true''
   \<and> documentSupport (configuration [] [''DOCUMENT_SUPPORT'' \<mapsto> ''true'']) = ''true''
   \<and> documentSupport (configuration [''--env'', ''DOCUMENT_MODEL=true''] Map.empty) = ''true''
   \<and> documentSupport (configuration [''--env'', ''DOCUMENT_SUPPORT=true''] Map.empty) = ''true''
   \<and> documentSupport (configuration [] Map.empty) = ''false''"
proof -
  have "filter (\<lambda>(key, value). addresses key ''documentSupport'') (cli_pairs []) = []"
    by (simp add: cli_pairs_def)
  from document_alias_equivalence[of Map.empty "[]", OF _ _ _ this]
  show ?thesis
    by (simp add: configuration_documentSupport envArgs_fold first_present_def present_def
          value_or_def)
qed

text \<open>C10: a \<^verbatim>\<open>--env\<close> that follows a \<^verbatim>\<open>--env\<close> is taken as its token: its key is
  no recognised name, so nothing is assigned, and the scan goes on after it; the token
  that follows is then passed over like any other argument, and the pair it would have
  formed gives nothing to the configuration.\<close>

theorem double_env_flag_drops_pair:
  "set_env_arg ''--env'' e = e
   \<and> (i + 2 < length args \<and> args ! i = ''--env'' \<and> args ! (i + 1) = ''--env''
        \<and> args ! (i + 2) \<noteq> ''--env''
      \<longrightarrow> envArgs_loop args i e = envArgs_loop args (i + 3) e)
   \<and> (token \<noteq> ''--env''
      \<longrightarrow> envArgs (''--env'' # ''--env'' # token # rest) = envArgs rest
        \<and> configuration (''--env'' # ''--env'' # token # rest) env = configuration rest env
        \<and> load_config (''--env'' # ''--env'' # token # rest) env = load_config rest env)"
proof (intro conjI impI)
  show "set_env_arg ''--env'' e = e"
    by (rule set_env_arg_flag)
next
  assume a: "i + 2 < length args \<and> args ! i = ''--env'' \<and> args ! (i + 1) = ''--env''
      \<and> args ! (i + 2) \<noteq> ''--env''"
  then have "envArgs_loop args i e = envArgs_loop args (i + 1 + 1) (set_env_arg ''--env'' e)"
    by (subst envArgs_loop.simps) simp
  also have "\<dots> = envArgs_loop args (i + 2) e"
    by (simp add: set_env_arg_flag)
  also have "\<dots> = envArgs_loop args (i + 2 + 1) e"
    using a by (subst envArgs_loop.simps) simp
  finally show "envArgs_loop args i e = envArgs_loop args (i + 3) e"
    by (simp add: numeral_3_eq_3)
next
  assume t: "token \<noteq> ''--env''"
  then have "env_tokens (token # rest) = env_tokens rest"
    by (cases rest) simp_all
  then show e: "envArgs (''--env'' # ''--env'' # token # rest) = envArgs rest"
    by (simp add: envArgs_fold set_env_arg_flag)
  then show c: "configuration (''--env'' # ''--env'' # token # rest) env = configuration rest env"
    by (simp add: configuration_def)
  then show "load_config (''--env'' # ''--env'' # token # rest) env = load_config rest env"
    by (simp add: load_config_def)
qed

theorem double_env_flag_example:
  "envArgs [''--env'', ''--env'', ''CLICKUP_API_KEY=x''] = envArgs []
   \<and> envArgs [''--env'', ''--env'', ''CLICKUP_API_KEY=x''] ''clickupApiKey'' = None
   \<and> envArgs [''--env'', ''CLICKUP_API_KEY=x''] ''clickupApiKey'' = Some ''x''
   \<and> configuration [''--env'', ''--env'', ''CLICKUP_API_KEY=x''] Map.empty
       = configuration [] Map.empty
   \<and> clickupApiKey (configuration [''--env'', ''--env'', ''CLICKUP_API_KEY=x''] Map.empty) = []
   \<and> envArgs_loop [''--env'', ''--env'', ''CLICKUP_API_KEY=x''] 0 Map.empty
       = envArgs_loop [''--env'', ''--env'', ''CLICKUP_API_KEY=x''] 3 Map.empty"
  using double_env_flag_drops_pair[where i = 0 and e = Map.empty and env = Map.empty
      and args = "[''--env'', ''--env'', ''CLICKUP_API_KEY=x'']"
      and token = "''CLICKUP_API_KEY=x''" and rest = "[]"]
  by (simp add: envArgs_fold configuration_def set_env_arg_def destructure_def alias_table_def
        or_js_def or_default_def truthy_def)

end
